theory Spec2Isabelle
  imports Complex_Main "HOL-Library.Char_ord" "HOL-Library.List_Lexorder"
begin

section \<open>Tables\<close>

text \<open>
  The pipeline works on pandas data frames. A frame is modelled by its column labels, in
  order, and its rows, each row holding one cell per column. A cell is a number, a text or
  the missing value (pandas' NaN/None). Labels are taken to be unique within a frame, as
  they are for frames read from SQL or CSV; where a label occurs twice the model reads and
  writes the first column carrying it.
\<close>

datatype error =
    IndexError
  | KeyError string
  | TypeError
  | ValueError
  | AttributeError
  | StopIteration

datatype cell = Num real | Str string | Null

text \<open>A Python float: a number or not-a-number (infinities are left out).\<close>

datatype pyfloat = Finite real | NaN

record DataFrame =
  columns :: "string list"
  rows :: "cell list list"

fun col_index :: "string \<Rightarrow> string list \<Rightarrow> nat option" where
  "col_index c [] = None"
| "col_index c (x # xs) = (if x = c then Some 0 else map_option Suc (col_index c xs))"

text \<open>\<^verbatim>\<open>df[label]\<close>: the column as a list of cells, \<^verbatim>\<open>KeyError\<close> when the frame has no
  such label.\<close>

definition getitem :: "DataFrame \<Rightarrow> string \<Rightarrow> error + cell list" where
  "getitem d c =
     (case col_index c (columns d) of
        None \<Rightarrow> Inl (KeyError c)
      | Some i \<Rightarrow> Inr (map (\<lambda>r. r ! i) (rows d)))"

text \<open>\<^verbatim>\<open>df[label] = values\<close>: an existing column is replaced in place, a new one is
  appended as the last column. Every caller passes exactly one value per row.\<close>

definition setitem :: "string \<Rightarrow> cell list \<Rightarrow> DataFrame \<Rightarrow> DataFrame" where
  "setitem c vs d =
     (case col_index c (columns d) of
        Some i \<Rightarrow> d\<lparr>rows := map2 (\<lambda>r v. r[i := v]) (rows d) vs\<rparr>
      | None \<Rightarrow> d\<lparr>columns := columns d @ [c], rows := map2 (\<lambda>r v. r @ [v]) (rows d) vs\<rparr>)"

text \<open>\<^verbatim>\<open>DataFrame.rename(columns=mapper)\<close>: every label in the mapper's domain is replaced
  by its image, all at once; labels the frame does not have are ignored.\<close>

definition rename :: "(string \<rightharpoonup> string) \<Rightarrow> DataFrame \<Rightarrow> DataFrame" where
  "rename mapper d =
     d\<lparr>columns := map (\<lambda>c. case mapper c of Some n \<Rightarrow> n | None \<Rightarrow> c) (columns d)\<rparr>"

definition drop_at :: "nat \<Rightarrow> 'a list \<Rightarrow> 'a list" where
  "drop_at i xs = take i xs @ drop (Suc i) xs"

text \<open>
  \<^verbatim>\<open>left.merge(right, on=key, how='left')\<close>. Every left row comes out once for each right
  row with an equal key, in the right frame's order, and once, padded with missing values,
  when there is none; missing keys match each other, as in pandas. The right frame's key
  column is not repeated. A label other than the key that both frames carry gets the
  suffix \<^verbatim>\<open>_x\<close> on the left and \<^verbatim>\<open>_y\<close> on the right.
\<close>

definition merge_left :: "string \<Rightarrow> DataFrame \<Rightarrow> DataFrame \<Rightarrow> error + DataFrame" where
  "merge_left key left right =
     (case col_index key (columns left) of
        None \<Rightarrow> Inl (KeyError key)
      | Some i \<Rightarrow>
          (case col_index key (columns right) of
             None \<Rightarrow> Inl (KeyError key)
           | Some j \<Rightarrow>
               let rcols = drop_at j (columns right) in
               Inr \<lparr>columns =
                      map (\<lambda>c. if c \<noteq> key \<and> c \<in> set rcols then c @ ''_x'' else c) (columns left)
                      @ map (\<lambda>c. if c \<in> set (columns left) then c @ ''_y'' else c) rcols,
                    rows =
                      concat (map (\<lambda>lr.
                        (case filter (\<lambda>rr. rr ! j = lr ! i) (rows right) of
                           [] \<Rightarrow> [lr @ replicate (length rcols) Null]
                         | ms \<Rightarrow> map (\<lambda>rr. lr @ drop_at j rr) ms)) (rows left))\<rparr>))"

text \<open>\<^verbatim>\<open>df.drop(columns=label)\<close>: removes the columns carrying the label, \<^verbatim>\<open>KeyError\<close>
  when there is none.\<close>

definition drop_columns :: "string \<Rightarrow> DataFrame \<Rightarrow> error + DataFrame" where
  "drop_columns c d =
     (if c \<in> set (columns d)
      then Inr \<lparr>columns = filter (\<lambda>n. n \<noteq> c) (columns d),
                rows = map (\<lambda>r. map snd (filter (\<lambda>(n, v). n \<noteq> c) (zip (columns d) r))) (rows d)\<rparr>
      else Inl (KeyError c))"

text \<open>A boolean mask applied to the rows of a frame: \<^verbatim>\<open>df[mask]\<close>.\<close>

definition select_rows :: "bool list \<Rightarrow> DataFrame \<Rightarrow> DataFrame" where
  "select_rows keep d = d\<lparr>rows := map snd (filter fst (zip keep (rows d)))\<rparr>"

text \<open>The element-wise \<^verbatim>\<open>==\<close> of a column with a scalar: a missing value equals nothing.\<close>

fun cell_eq :: "cell \<Rightarrow> cell \<Rightarrow> bool" where
  "cell_eq (Num a) (Num b) = (a = b)"
| "cell_eq (Str a) (Str b) = (a = b)"
| "cell_eq _ _ = False"

text \<open>\<^verbatim>\<open>Series.unique()\<close>: the distinct values in the order of their first appearance.\<close>

fun unique_seen :: "'a list \<Rightarrow> 'a list \<Rightarrow> 'a list" where
  "unique_seen seen [] = []"
| "unique_seen seen (x # xs) =
     (if x \<in> set seen then unique_seen seen xs else x # unique_seen (x # seen) xs)"

definition unique :: "'a list \<Rightarrow> 'a list" where
  "unique xs = unique_seen [] xs"

fun is_Num :: "cell \<Rightarrow> bool" where
  "is_Num (Num _) = True"
| "is_Num _ = False"

fun is_Str :: "cell \<Rightarrow> bool" where
  "is_Str (Str _) = True"
| "is_Str _ = False"

fun num_of :: "cell \<Rightarrow> real" where
  "num_of (Num x) = x"
| "num_of _ = 0"

fun str_of :: "cell \<Rightarrow> string" where
  "str_of (Str s) = s"
| "str_of _ = []"

text \<open>
  Python's \<^verbatim>\<open>sorted\<close> on a list of cells. A list of at most one element is returned as
  it is. Numbers sort by value and texts by code point. A longer list that holds a text
  next to a number or a missing value raises \<^verbatim>\<open>TypeError\<close>, since the sort has to compare
  the two. Numbers with missing values among them raise nothing (a missing number is NaN,
  and every comparison with NaN is false): the list comes back rearranged in a way that
  follows the steps of the sorting algorithm, not an order of the values. Where each
  element goes in that case is the parameter \<open>nan_rank\<close>: the element at position \<open>i\<close> of
  \<open>xs\<close> is placed by its rank \<open>nan_rank xs i\<close>, elements of equal rank keeping their order.
\<close>

definition py_sorted :: "(cell list \<Rightarrow> nat \<Rightarrow> nat) \<Rightarrow> cell list \<Rightarrow> error + cell list" where
  "py_sorted nan_rank xs =
     (if length xs \<le> 1 then Inr xs
      else if list_all is_Num xs then Inr (map Num (sort (map num_of xs)))
      else if list_all is_Str xs then Inr (map Str (sort (map str_of xs)))
      else if list_ex is_Str xs then Inl TypeError
      else Inr (map snd (sort_key (\<lambda>(i, c). nan_rank xs i) (enumerate 0 xs))))"

section \<open>field\_data\_processor.py\<close>

text \<open>
  The configuration dictionary: a key that is absent is \<open>None\<close>. Both dictionaries it
  holds keep the insertion order of their pairs.
\<close>

record config_params =
  cfg_db_path :: "string option"
  cfg_sql_query :: "string option"
  cfg_columns_to_rename :: "(string \<times> string) list option"
  cfg_values_to_rename :: "(string \<times> string) list option"
  cfg_weather_mapping_csv :: "string option"
  cfg_weather_csv_path :: "string option"
  cfg_regex_patterns :: "(string \<times> string) list option"

text \<open>The object state of \<^verbatim>\<open>FieldDataProcessor\<close>. Logging is not modelled.\<close>

record FieldDataProcessor =
  db_path :: string
  sql_query :: string
  columns_to_rename :: "(string \<times> string) list"
  values_to_rename :: "(string \<times> string) list"
  weather_map_data :: string
  df :: "DataFrame option"
  engine :: "string option"

text \<open>\<^verbatim>\<open>__init__\<close>: reads five keys of the configuration, in this order, and raises
  \<^verbatim>\<open>KeyError\<close> at the first one that is absent. Nothing else is checked.\<close>

definition FieldDataProcessor_init :: "config_params \<Rightarrow> error + FieldDataProcessor" where
  "FieldDataProcessor_init config =
     (case cfg_db_path config of
        None \<Rightarrow> Inl (KeyError ''db_path'')
      | Some p \<Rightarrow>
     (case cfg_sql_query config of
        None \<Rightarrow> Inl (KeyError ''sql_query'')
      | Some q \<Rightarrow>
     (case cfg_columns_to_rename config of
        None \<Rightarrow> Inl (KeyError ''columns_to_rename'')
      | Some cr \<Rightarrow>
     (case cfg_values_to_rename config of
        None \<Rightarrow> Inl (KeyError ''values_to_rename'')
      | Some vr \<Rightarrow>
     (case cfg_weather_mapping_csv config of
        None \<Rightarrow> Inl (KeyError ''weather_mapping_csv'')
      | Some m \<Rightarrow>
          Inr \<lparr>db_path = p, sql_query = q, columns_to_rename = cr, values_to_rename = vr,
               weather_map_data = m, df = None, engine = None\<rparr>)))))"

text \<open>\<^verbatim>\<open>ingest_sql_data\<close>: the engine is created for the database path and the frame the
  query returns is stored. The frame returned by the external \<^verbatim>\<open>query_data\<close> is the
  parameter \<open>queried\<close>.\<close>

definition ingest_sql_data :: "DataFrame \<Rightarrow> FieldDataProcessor \<Rightarrow> FieldDataProcessor" where
  "ingest_sql_data queried self = self\<lparr>engine := Some (db_path self), df := Some queried\<rparr>"

text \<open>The \<^verbatim>\<open>while temp_name in self.df.columns: temp_name += "_"\<close> loop.\<close>

function temp_name_loop :: "string \<Rightarrow> string list \<Rightarrow> string" where
  "temp_name_loop temp_name cols =
     (if temp_name \<in> set cols then temp_name_loop (temp_name @ ''_'') cols else temp_name)"
  by pat_completeness auto
termination
proof (relation "measure (\<lambda>(t, cols). Suc (Max (length ` set cols)) - length t)")
  show "wf (measure (\<lambda>(t, cols). Suc (Max (length ` set cols)) - length t))"
    by simp
next
  fix temp_name :: string and cols :: "string list"
  assume "temp_name \<in> set cols"
  then have "length temp_name \<le> Max (length ` set cols)"
    by simp
  then show "((temp_name @ ''_'', cols), (temp_name, cols))
      \<in> measure (\<lambda>(t, cols). Suc (Max (length ` set cols)) - length t)"
    by simp
qed

text \<open>
  \<^verbatim>\<open>rename_columns\<close>. The first key and the first value of the mapping are taken
  (\<^verbatim>\<open>IndexError\<close> on an empty mapping, before the frame is touched). In the dictionary
  literal of the first rename a repeated key keeps its last value, as the map updates do.
\<close>

definition rename_columns :: "FieldDataProcessor \<Rightarrow> error + FieldDataProcessor" where
  "rename_columns self =
     (case columns_to_rename self of
        [] \<Rightarrow> Inl IndexError
      | (column1, column2) # _ \<Rightarrow>
          (case df self of
             None \<Rightarrow> Inl AttributeError
           | Some d \<Rightarrow>
               let temp_name = temp_name_loop ''__temp_name_for_swap__'' (columns d);
                   d1 = rename (Map.empty(column1 \<mapsto> temp_name, column2 \<mapsto> column1)) d;
                   d2 = rename (Map.empty(temp_name \<mapsto> column2)) d1
               in Inr (self\<lparr>df := Some d2\<rparr>)))"

text \<open>\<^verbatim>\<open>Series.abs()\<close>: a missing value stays missing, a text raises \<^verbatim>\<open>TypeError\<close>.\<close>

fun series_abs :: "cell list \<Rightarrow> error + cell list" where
  "series_abs [] = Inr []"
| "series_abs (Num x # cs) = (case series_abs cs of Inl e \<Rightarrow> Inl e | Inr vs \<Rightarrow> Inr (Num \<bar>x\<bar> # vs))"
| "series_abs (Null # cs) = (case series_abs cs of Inl e \<Rightarrow> Inl e | Inr vs \<Rightarrow> Inr (Null # vs))"
| "series_abs (Str s # cs) = Inl TypeError"

text \<open>\<^verbatim>\<open>lambda crop: self.values_to_rename.get(crop, crop)\<close>; the dictionary's keys are
  texts, so a cell that is not a text is never found.\<close>

fun values_get :: "(string \<times> string) list \<Rightarrow> cell \<Rightarrow> cell" where
  "values_get vr (Str crop) = (case map_of vr crop of Some v \<Rightarrow> Str v | None \<Rightarrow> Str crop)"
| "values_get vr c = c"

text \<open>
  \<^verbatim>\<open>apply_corrections\<close>. A failure comes with the object as the method leaves it: the
  absolute values are already stored when the second column is looked up.
\<close>

definition apply_corrections ::
  "string \<Rightarrow> string \<Rightarrow> FieldDataProcessor \<Rightarrow> (error \<times> FieldDataProcessor) + FieldDataProcessor" where
  "apply_corrections column_name abs_column self =
     (case df self of
        None \<Rightarrow> Inl (TypeError, self)
      | Some d \<Rightarrow>
          (case getitem d abs_column of
             Inl e \<Rightarrow> Inl (e, self)
           | Inr col \<Rightarrow>
               (case series_abs col of
                  Inl e \<Rightarrow> Inl (e, self)
                | Inr vs \<Rightarrow>
                    let d1 = setitem abs_column vs d;
                        self1 = self\<lparr>df := Some d1\<rparr>
                    in (case getitem d1 column_name of
                          Inl e \<Rightarrow> Inl (e, self1)
                        | Inr crops \<Rightarrow>
                            Inr (self1\<lparr>df := Some (setitem column_name
                                   (map (values_get (values_to_rename self)) crops) d1)\<rparr>)))))"

text \<open>
  \<^verbatim>\<open>process\<close>: ingestion, the column swap, the corrections with their default columns,
  the left join with the station mapping and the removal of the index column of the
  mapping's CSV. \<open>queried\<close> and \<open>weather_map_df\<close> are the frames the external
  \<^verbatim>\<open>query_data\<close> and \<^verbatim>\<open>read_from_web_CSV\<close> return. A failure comes with the object as
  it is when the exception leaves \<^verbatim>\<open>process\<close>.
\<close>

definition process ::
  "DataFrame \<Rightarrow> DataFrame \<Rightarrow> FieldDataProcessor \<Rightarrow> (error \<times> FieldDataProcessor) + FieldDataProcessor" where
  "process queried weather_map_df self =
     (let s1 = ingest_sql_data queried self in
      case rename_columns s1 of
        Inl e \<Rightarrow> Inl (e, s1)
      | Inr s2 \<Rightarrow>
          (case apply_corrections ''Crop_type'' ''Elevation'' s2 of
             Inl x \<Rightarrow> Inl x
           | Inr s3 \<Rightarrow>
               (case df s3 of
                  None \<Rightarrow> Inl (AttributeError, s3)
                | Some d \<Rightarrow>
                    (case merge_left ''Field_ID'' d weather_map_df of
                       Inl e \<Rightarrow> Inl (e, s3)
                     | Inr merged \<Rightarrow>
                         (case drop_columns ''Unnamed: 0'' merged of
                            Inl e \<Rightarrow> Inl (e, s3\<lparr>df := Some merged\<rparr>)
                          | Inr fused \<Rightarrow> Inr (s3\<lparr>df := Some fused\<rparr>))))))"

section \<open>weather\_data\_processor.py\<close>

record WeatherDataProcessor =
  weather_station_data :: string
  patterns :: "(string \<times> string) list"
  weather_df :: "DataFrame option"

text \<open>\<^verbatim>\<open>next(x for x in match.groups() if x is not None)\<close>; \<open>None\<close> is the
  \<^verbatim>\<open>StopIteration\<close> of an exhausted generator.\<close>

fun first_not_none :: "'a option list \<Rightarrow> 'a option" where
  "first_not_none [] = None"
| "first_not_none (None # gs) = first_not_none gs"
| "first_not_none (Some x # gs) = Some x"

text \<open>
  \<^verbatim>\<open>extract_measurement\<close>. The regular-expression engine and the number parser are
  Python's: \<open>re_search pattern message\<close> is \<^verbatim>\<open>re.search\<close> (an error, no match, or the
  groups of the leftmost match) and \<open>py_float\<close> is \<^verbatim>\<open>float\<close>. The loop walks the pattern
  dictionary in insertion order; a message that is not a text makes \<^verbatim>\<open>re.search\<close> raise
  \<^verbatim>\<open>TypeError\<close>.
\<close>

fun extract_measurement ::
  "(string \<Rightarrow> string \<Rightarrow> error + string option list option) \<Rightarrow> (string \<Rightarrow> error + pyfloat) \<Rightarrow>
   (string \<times> string) list \<Rightarrow> cell \<Rightarrow> error + (string option \<times> pyfloat option)" where
  "extract_measurement re_search py_float [] message = Inr (None, None)"
| "extract_measurement re_search py_float ((key, pattern) # rest) message =
     (case message of
        Str text \<Rightarrow>
          (case re_search pattern text of
             Inl e \<Rightarrow> Inl e
           | Inr None \<Rightarrow> extract_measurement re_search py_float rest message
           | Inr (Some groups) \<Rightarrow>
               (case first_not_none groups of
                  None \<Rightarrow> Inl StopIteration
                | Some x \<Rightarrow>
                    (case py_float x of
                       Inl e \<Rightarrow> Inl e
                     | Inr v \<Rightarrow> Inr (Some key, Some v))))
      | _ \<Rightarrow> Inl TypeError)"

text \<open>\<^verbatim>\<open>Series.apply\<close>: the function is applied to the cells from first to last and the
  first exception ends it.\<close>

fun series_apply :: "('a \<Rightarrow> error + 'b) \<Rightarrow> 'a list \<Rightarrow> error + 'b list" where
  "series_apply f [] = Inr []"
| "series_apply f (x # xs) =
     (case f x of
        Inl e \<Rightarrow> Inl e
      | Inr y \<Rightarrow> (case series_apply f xs of Inl e \<Rightarrow> Inl e | Inr ys \<Rightarrow> Inr (y # ys)))"

text \<open>The cells stored in the two derived columns.\<close>

fun measurement_cell :: "string option \<Rightarrow> cell" where
  "measurement_cell None = Null"
| "measurement_cell (Some key) = Str key"

fun value_cell :: "pyfloat option \<Rightarrow> cell" where
  "value_cell (Some (Finite v)) = Num v"
| "value_cell _ = Null"

text \<open>
  \<^verbatim>\<open>process_messages\<close>. \<^verbatim>\<open>zip(*result)\<close> transposes the list of pairs into the tuple of
  keys and the tuple of values; for an empty \<^verbatim>\<open>result\<close> it yields nothing at all, and
  unpacking it into the two targets raises \<^verbatim>\<open>ValueError\<close>. Without a frame the method
  only logs a warning.
\<close>

definition process_messages ::
  "(string \<Rightarrow> string \<Rightarrow> error + string option list option) \<Rightarrow> (string \<Rightarrow> error + pyfloat) \<Rightarrow>
   WeatherDataProcessor \<Rightarrow> error + WeatherDataProcessor" where
  "process_messages re_search py_float self =
     (case weather_df self of
        None \<Rightarrow> Inr self
      | Some d \<Rightarrow>
          (case getitem d ''Message'' of
             Inl e \<Rightarrow> Inl e
           | Inr messages \<Rightarrow>
               (case series_apply (extract_measurement re_search py_float (patterns self)) messages of
                  Inl e \<Rightarrow> Inl e
                | Inr result \<Rightarrow>
                    if result = [] then Inl ValueError
                    else Inr (self\<lparr>weather_df :=
                           Some (setitem ''Value'' (map (value_cell \<circ> snd) result)
                                  (setitem ''Measurement'' (map (measurement_cell \<circ> fst) result) d))\<rparr>))))"

section \<open>analysis.py\<close>

definition measurements_to_compare :: "string list" where
  "measurements_to_compare = [''Temperature'', ''Rainfall'', ''Pollution_level'']"

definition filter_field_data :: "DataFrame \<Rightarrow> cell \<Rightarrow> string \<Rightarrow> error + cell list" where
  "filter_field_data d station_id measurement =
     (case getitem d ''Weather_station'' of
        Inl e \<Rightarrow> Inl e
      | Inr ws \<Rightarrow> getitem (select_rows (map (\<lambda>c. cell_eq c station_id) ws) d) measurement)"

definition filter_weather_data :: "DataFrame \<Rightarrow> cell \<Rightarrow> string \<Rightarrow> error + cell list" where
  "filter_weather_data d station_id measurement =
     (case getitem d ''Weather_station_ID'' of
        Inl e \<Rightarrow> Inl e
      | Inr ws \<Rightarrow>
          (case getitem d ''Measurement'' of
             Inl e \<Rightarrow> Inl e
           | Inr ms \<Rightarrow>
               getitem (select_rows (map2 (\<lambda>w m. cell_eq w station_id \<and> cell_eq m (Str measurement)) ws ms) d)
                 ''Value''))"

text \<open>\<^verbatim>\<open>run_ttest\<close>: \<open>ttest_ind\<close> is scipy's test with \<^verbatim>\<open>equal_var=False\<close>, returning the
  statistic and the p-value.\<close>

definition run_ttest ::
  "(cell list \<Rightarrow> cell list \<Rightarrow> pyfloat \<times> pyfloat) \<Rightarrow> cell list \<Rightarrow> cell list \<Rightarrow> pyfloat \<times> pyfloat" where
  "run_ttest ttest_ind Column_A Column_B = ttest_ind Column_A Column_B"

text \<open>Python's \<^verbatim>\<open><=\<close> on floats: false as soon as one side is not a number.\<close>

fun float_le :: "pyfloat \<Rightarrow> pyfloat \<Rightarrow> bool" where
  "float_le (Finite a) (Finite b) = (a \<le> b)"
| "float_le _ _ = False"

text \<open>
  A printed line, by the template that produced it and the values it interpolates
  (measurement, station, p-value, threshold), the formatting of the numbers left aside:
  \<^item> \<open>Significant_difference\<close>: \<^verbatim>\<open>Significant difference in {measurement} detected at
    Station {station_id}, (P-Value: {p_val:.5f} < {alpha}). Null hypothesis rejected.\<close>
  \<^item> \<open>No_significant_difference\<close>: \<^verbatim>\<open>No significant difference in {measurement} detected
    at Station {station_id}, (P-Value: {p_val:.5f} > {alpha}). Null hypothesis not rejected.\<close>
  \<^item> \<open>Empty_line\<close>: the bare \<^verbatim>\<open>print()\<close>.
\<close>

datatype printed =
    Significant_difference string cell pyfloat pyfloat
  | No_significant_difference string cell pyfloat pyfloat
  | Empty_line

definition print_ttest_results :: "cell \<Rightarrow> string \<Rightarrow> pyfloat \<Rightarrow> pyfloat \<Rightarrow> printed" where
  "print_ttest_results station_id measurement p_val alpha =
     (if float_le p_val alpha
      then Significant_difference measurement station_id p_val alpha
      else No_significant_difference measurement station_id p_val alpha)"

text \<open>What \<^verbatim>\<open>hypothesis_results\<close> does, in order: the calls of \<^verbatim>\<open>run_ttest\<close>, by station
  and measurement, and the lines printed.\<close>

datatype event = Ttest cell string | Print printed

fun measurement_loop ::
  "(cell list \<Rightarrow> cell list \<Rightarrow> pyfloat \<times> pyfloat) \<Rightarrow> DataFrame \<Rightarrow> DataFrame \<Rightarrow> pyfloat \<Rightarrow> cell \<Rightarrow>
   string list \<Rightarrow> error option \<times> event list" where
  "measurement_loop ttest_ind field_df weather_df' alpha station_id [] = (None, [])"
| "measurement_loop ttest_ind field_df weather_df' alpha station_id (measurement # rest) =
     (case filter_field_data field_df station_id measurement of
        Inl e \<Rightarrow> (Some e, [])
      | Inr field_values \<Rightarrow>
          (case filter_weather_data weather_df' station_id measurement of
             Inl e \<Rightarrow> (Some e, [])
           | Inr weather_values \<Rightarrow>
               let p_value = snd (run_ttest ttest_ind field_values weather_values);
                   line = print_ttest_results station_id measurement p_value alpha;
                   later = measurement_loop ttest_ind field_df weather_df' alpha station_id rest
               in (fst later, Ttest station_id measurement # Print line # snd later)))"

fun station_loop ::
  "(cell list \<Rightarrow> cell list \<Rightarrow> pyfloat \<times> pyfloat) \<Rightarrow> DataFrame \<Rightarrow> DataFrame \<Rightarrow> pyfloat \<Rightarrow>
   cell list \<Rightarrow> error option \<times> event list" where
  "station_loop ttest_ind field_df weather_df' alpha [] = (None, [])"
| "station_loop ttest_ind field_df weather_df' alpha (station_id # rest) =
     (case measurement_loop ttest_ind field_df weather_df' alpha station_id measurements_to_compare of
        (Some e, evs) \<Rightarrow> (Some e, evs)
      | (None, evs) \<Rightarrow>
          let later = station_loop ttest_ind field_df weather_df' alpha rest
          in (fst later, evs @ Print Empty_line # snd later))"

text \<open>
  \<^verbatim>\<open>hypothesis_results\<close>. The result is the exception that ended the run, if any, and
  the events up to there. The inner loop walks the module-level list
  \<open>measurements_to_compare\<close>; the parameter \<open>list_measurements_to_compare\<close> is not read.
  \<open>nan_rank\<close> is the parameter of \<open>py_sorted\<close>.
\<close>

definition hypothesis_results ::
  "(cell list \<Rightarrow> nat \<Rightarrow> nat) \<Rightarrow> (cell list \<Rightarrow> cell list \<Rightarrow> pyfloat \<times> pyfloat) \<Rightarrow>
   DataFrame \<Rightarrow> DataFrame \<Rightarrow> string list \<Rightarrow> pyfloat \<Rightarrow> error option \<times> event list" where
  "hypothesis_results nan_rank ttest_ind field_df weather_df' list_measurements_to_compare alpha =
     (case getitem weather_df' ''Weather_station_ID'' of
        Inl e \<Rightarrow> (Some e, [])
      | Inr ids \<Rightarrow>
          (case py_sorted nan_rank (unique ids) of
             Inl e \<Rightarrow> (Some e, [])
           | Inr unique_station_ids \<Rightarrow>
               station_loop ttest_ind field_df weather_df' alpha unique_station_ids))"

section \<open>Notions of the specification and sample inputs\<close>

text \<open>The exchange of two labels, as the specification words it: the first becomes the
  second, the second becomes the first, every other label stays.\<close>

definition exchanged :: "string \<Rightarrow> string \<Rightarrow> string \<Rightarrow> string" where
  "exchanged a b c = (if c = a then b else if c = b then a else c)"

text \<open>A processor configured as in \<^verbatim>\<open>validate_data.py\<close> (the query abridged), and a
  small survey table of the shape the query returns: the crop names stand under
  \<^verbatim>\<open>Annual_yield\<close> and the yields under \<^verbatim>\<open>Crop_type\<close>.\<close>

definition sample_processor :: FieldDataProcessor where
  "sample_processor =
     \<lparr>db_path = ''sqlite:///Maji_Ndogo_farm_survey_small.db'',
      sql_query = ''SELECT * FROM geographic_features'',
      columns_to_rename = [(''Annual_yield'', ''Crop_type''), (''Crop_type'', ''Annual_yield'')],
      values_to_rename = [(''cassaval'', ''cassava''), (''cassava '', ''cassava''),
        (''wheatn'', ''wheat''), (''wheat '', ''wheat''), (''teaa'', ''tea''), (''tea '', ''tea'')],
      weather_map_data = ''Weather_data_field_mapping.csv'',
      df = None, engine = None\<rparr>"

definition sample_survey :: DataFrame where
  "sample_survey =
     \<lparr>columns = [''Field_ID'', ''Elevation'', ''Annual_yield'', ''Crop_type''],
      rows = [[Num 1, Num (-5), Str ''wheatn'', Num 2],
              [Num 2, Num 3, Str ''maize'', Num 4]]\<rparr>"

text \<open>The survey table after the swap.\<close>

definition sample_swapped :: DataFrame where
  "sample_swapped =
     \<lparr>columns = [''Field_ID'', ''Elevation'', ''Crop_type'', ''Annual_yield''],
      rows = [[Num 1, Num (-5), Str ''wheatn'', Num 2],
              [Num 2, Num 3, Str ''maize'', Num 4]]\<rparr>"

text \<open>A frame is rectangular when every row has one cell per column.\<close>

definition rectangular :: "DataFrame \<Rightarrow> bool" where
  "rectangular d = list_all (\<lambda>r. length r = length (columns d)) (rows d)"

text \<open>The absolute value of a numeric cell; a missing value has none.\<close>

fun abs_cell :: "cell \<Rightarrow> cell" where
  "abs_cell (Num x) = Num \<bar>x\<bar>"
| "abs_cell c = c"

text \<open>The station mapping as its CSV is read, index column included; field 2 has no
  station and the station of field 7 has no field. Below it, the survey table after the
  corrections.\<close>

definition sample_mapping :: DataFrame where
  "sample_mapping =
     \<lparr>columns = [''Unnamed: 0'', ''Field_ID'', ''Weather_station''],
      rows = [[Num 0, Num 1, Num 4],
              [Num 1, Num 7, Num 2]]\<rparr>"







text \<open>A configuration whose rename mapping is empty (the keys the field processor does
  not read are absent).\<close>

definition empty_rename_config :: config_params where
  "empty_rename_config =
     \<lparr>cfg_db_path = Some ''sqlite:///Maji_Ndogo_farm_survey_small.db'',
      cfg_sql_query = Some ''SELECT * FROM geographic_features'',
      cfg_columns_to_rename = Some [],
      cfg_values_to_rename = Some [(''cassaval'', ''cassava''), (''cassava '', ''cassava''),
        (''wheatn'', ''wheat''), (''wheat '', ''wheat''), (''teaa'', ''tea''), (''tea '', ''tea'')],
      cfg_weather_mapping_csv = Some ''Weather_data_field_mapping.csv'',
      cfg_weather_csv_path = None,
      cfg_regex_patterns = None\<rparr>"

text \<open>The patterns of \<^verbatim>\<open>validate_data.py\<close>, in the order of the dictionary.\<close>

definition backslash :: string where
  "backslash = [CHR 0x5C]"

definition rainfall_pattern :: string where
  "rainfall_pattern =
     ''('' @ backslash @ ''d+('' @ backslash @ ''.'' @ backslash @ ''d+)?)'' @ backslash @ ''s?mm''"

definition temperature_pattern :: string where
  "temperature_pattern =
     ''('' @ backslash @ ''d+('' @ backslash @ ''.'' @ backslash @ ''d+)?)'' @ backslash @ ''s?C''"

definition pollution_pattern :: string where
  "pollution_pattern =
     ''='' @ backslash @ ''s*(-?'' @ backslash @ ''d+('' @ backslash @ ''.'' @ backslash @ ''d+)?)''
     @ ''|Pollution at '' @ backslash @ ''s*(-?'' @ backslash @ ''d+('' @ backslash @ ''.''
     @ backslash @ ''d+)?)''"

definition regex_patterns :: "(string \<times> string) list" where
  "regex_patterns =
     [(''Rainfall'', rainfall_pattern), (''Temperature'', temperature_pattern),
      (''Pollution_level'', pollution_pattern)]"

text \<open>
  What Python's \<^verbatim>\<open>re.search\<close> and \<^verbatim>\<open>float\<close> return for the three patterns on the four
  messages \<^verbatim>\<open>Cold today, 5.28C\<close>, \<^verbatim>\<open>Pollution at 2.3 ppm\<close>, \<^verbatim>\<open>Clear skies\<close> and
  \<^verbatim>\<open>Rain 12mm at 3C\<close>, and for the groups found there, written down as a table (a number
  stands for the decimal it spells). The table says nothing true about other arguments.
\<close>

definition recorded_search :: "string \<Rightarrow> string \<Rightarrow> error + string option list option" where
  "recorded_search pattern text =
     (if pattern = temperature_pattern \<and> text = ''Cold today, 5.28C''
        then Inr (Some [Some ''5.28'', Some ''.28''])
      else if pattern = pollution_pattern \<and> text = ''Pollution at 2.3 ppm''
        then Inr (Some [None, None, Some ''2.3'', Some ''.3''])
      else if pattern = rainfall_pattern \<and> text = ''Rain 12mm at 3C''
        then Inr (Some [Some ''12'', None])
      else if pattern = temperature_pattern \<and> text = ''Rain 12mm at 3C''
        then Inr (Some [Some ''3'', None])
      else Inr None)"

definition recorded_float :: "string \<Rightarrow> error + pyfloat" where
  "recorded_float s =
     (if s = ''5.28'' then Inr (Finite 5.28)
      else if s = ''2.3'' then Inr (Finite 2.3)
      else if s = ''12'' then Inr (Finite 12)
      else if s = ''3'' then Inr (Finite 3)
      else Inl ValueError)"

text \<open>A weather table as read from the CSV, and the same table after
  \<^verbatim>\<open>process_messages\<close>.\<close>

definition sample_weather :: DataFrame where
  "sample_weather =
     \<lparr>columns = [''Weather_station_ID'', ''Message''],
      rows = [[Num 1, Str ''Cold today, 5.28C''],
              [Num 0, Str ''Pollution at 2.3 ppm''],
              [Num 0, Str ''Clear skies'']]\<rparr>"

definition sample_parsed :: DataFrame where
  "sample_parsed =
     \<lparr>columns = [''Weather_station_ID'', ''Message'', ''Measurement'', ''Value''],
      rows = [[Num 1, Str ''Cold today, 5.28C'', Str ''Temperature'', Num 5.28],
              [Num 0, Str ''Pollution at 2.3 ppm'', Str ''Pollution_level'', Num 2.3],
              [Num 0, Str ''Clear skies'', Null, Null]]\<rparr>"


text \<open>The tests run, read off the events; the station an event is about (the empty line
  is about none); and the ascending order of station ids, defined where Python's \<^verbatim>\<open><\<close>
  is.\<close>

fun tests :: "event list \<Rightarrow> (cell \<times> string) list" where
  "tests [] = []"
| "tests (Ttest s m # evs) = (s, m) # tests evs"
| "tests (Print l # evs) = tests evs"

fun station_of :: "event \<Rightarrow> cell option" where
  "station_of (Ttest s m) = Some s"
| "station_of (Print (Significant_difference m s p a)) = Some s"
| "station_of (Print (No_significant_difference m s p a)) = Some s"
| "station_of (Print Empty_line) = None"

fun cell_lt :: "cell \<Rightarrow> cell \<Rightarrow> bool" where
  "cell_lt (Num a) (Num b) = (a < b)"
| "cell_lt (Str a) (Str b) = (a < b)"
| "cell_lt _ _ = False"

text \<open>
  scipy's test on samples too small for it: with fewer than two observations on a side
  the statistic and the p-value are both not-a-number. The samples of the tables below
  are all of this kind. In \<open>sample_fused\<close> station 7 has a field and no weather message.
\<close>

definition undefined_ttest :: "cell list \<Rightarrow> cell list \<Rightarrow> pyfloat \<times> pyfloat" where
  "undefined_ttest a b = (NaN, NaN)"

definition sample_fused :: DataFrame where
  "sample_fused =
     \<lparr>columns = [''Field_ID'', ''Temperature'', ''Rainfall'', ''Pollution_level'', ''Weather_station''],
      rows = [[Num 1, Num 20.1, Num 100, Num 0.3, Num 0],
              [Num 2, Num 19.8, Num 120, Num 0.4, Num 1],
              [Num 3, Num 25, Num 90, Num 0.2, Num 7]]\<rparr>"

text \<open>
  A parsed weather table in which one station id is missing. Python's \<^verbatim>\<open>sorted\<close> returns
  the ids 3, NaN, 1 as they stand (the first comparisons, NaN with 3 and 1 with NaN, are
  false, so the list passes for ascending): all three have the same rank.
\<close>

definition sample_missing_id :: DataFrame where
  "sample_missing_id =
     \<lparr>columns = [''Weather_station_ID'', ''Message'', ''Measurement'', ''Value''],
      rows = [[Num 3, Str ''Cold today, 5.28C'', Str ''Temperature'', Num 5.28],
              [Null, Str ''Pollution at 2.3 ppm'', Str ''Pollution_level'', Num 2.3],
              [Num 1, Str ''Clear skies'', Null, Null]]\<rparr>"

definition recorded_rank :: "cell list \<Rightarrow> nat \<Rightarrow> nat" where
  "recorded_rank xs i = 0"

section \<open>The column swap\<close>

lemma temp_name_loop_fresh: "temp_name_loop t cols \<notin> set cols"
  by (induction t cols rule: temp_name_loop.induct) (simp split: if_splits)

lemma rename_swap_columns:
  assumes "tmp \<notin> set cols" and "c1 \<noteq> tmp"
  shows "map (\<lambda>c. case (Map.empty(tmp \<mapsto> c2)) c of Some n \<Rightarrow> n | None \<Rightarrow> c)
           (map (\<lambda>c. case (Map.empty(c1 \<mapsto> tmp, c2 \<mapsto> c1)) c of Some n \<Rightarrow> n | None \<Rightarrow> c) cols)
         = map (exchanged c1 c2) cols"
  using assms by (induction cols) (auto simp: exchanged_def)

lemma exchanged_inj: "exchanged a b x = exchanged a b c \<longleftrightarrow> x = c"
  by (auto simp: exchanged_def)

lemma exchanged_twice: "exchanged a b (exchanged a b c) = c"
  by (auto simp: exchanged_def)

lemma exchanged_member: "c2 \<in> set cols \<Longrightarrow> c1 \<in> set (map (exchanged c1 c2) cols)"
  by (force simp: exchanged_def)

lemma col_index_exchanged:
  "col_index (exchanged a b c) (map (exchanged a b) cols) = col_index c cols"
  by (induction cols) (simp_all add: exchanged_inj)

lemma col_index_member: "c \<in> set cols \<Longrightarrow> \<exists>i. col_index c cols = Some i"
  by (induction cols) auto

lemma rename_columns_result:
  assumes "columns_to_rename self = (column1, column2) # others"
    and "df self = Some d"
    and "column1 \<noteq> temp_name_loop ''__temp_name_for_swap__'' (columns d)"
  shows "rename_columns self =
           Inr (self\<lparr>df := Some (d\<lparr>columns := map (exchanged column1 column2) (columns d)\<rparr>)\<rparr>)"
  using assms rename_swap_columns[OF temp_name_loop_fresh, of column1
      "''__temp_name_for_swap__''" "columns d" column2]
  by (simp add: rename_columns_def rename_def Let_def)

text \<open>
  Claim C3. \<^verbatim>\<open>rename_columns\<close> uses the first pair of the mapping only and exchanges its
  two labels through a placeholder that no column carries: the labels of the frame are
  exchanged, the rows are untouched, so each column is read under its new label with the
  data it had, and no column is lost. The first label must not be the placeholder itself,
  which holds in particular whenever it labels a column of the frame.
\<close>

theorem rename_columns_exchanges_names:
  assumes "columns_to_rename self = (column1, column2) # others"
    and "df self = Some d"
    and "column1 \<noteq> temp_name_loop ''__temp_name_for_swap__'' (columns d)"
  shows "\<exists>d'. rename_columns self = Inr (self\<lparr>df := Some d'\<rparr>)
           \<and> columns d' = map (exchanged column1 column2) (columns d)
           \<and> rows d' = rows d
           \<and> (\<forall>c \<in> set (columns d). getitem d' (exchanged column1 column2 c) = getitem d c)
           \<and> rename_columns (self\<lparr>columns_to_rename := [(column1, column2)]\<rparr>)
               = Inr (self\<lparr>columns_to_rename := [(column1, column2)], df := Some d'\<rparr>)"
proof -
  let ?d' = "d\<lparr>columns := map (exchanged column1 column2) (columns d)\<rparr>"
  have first: "rename_columns self = Inr (self\<lparr>df := Some ?d'\<rparr>)"
    using assms by (rule rename_columns_result)
  have data: "getitem ?d' (exchanged column1 column2 c) = getitem d c"
    if "c \<in> set (columns d)" for c
    using col_index_member[OF that] by (auto simp: getitem_def col_index_exchanged)
  have single: "rename_columns (self\<lparr>columns_to_rename := [(column1, column2)]\<rparr>)
      = Inr (self\<lparr>columns_to_rename := [(column1, column2)], df := Some ?d'\<rparr>)"
    using assms(2,3)
      rename_columns_result[of "self\<lparr>columns_to_rename := [(column1, column2)]\<rparr>"
        column1 column2 "[]" d]
    by simp
  from first data single show ?thesis
    by (intro exI[of _ ?d']) simp
qed

theorem rename_columns_exchanges_names_witness:
  "rename_columns (sample_processor\<lparr>df := Some sample_survey\<rparr>)
     = Inr (sample_processor\<lparr>df := Some
         \<lparr>columns = [''Field_ID'', ''Elevation'', ''Crop_type'', ''Annual_yield''],
          rows = rows sample_survey\<rparr>\<rparr>)"
proof -
  let ?self = "sample_processor\<lparr>df := Some sample_survey\<rparr>"
  have h1: "columns_to_rename ?self
      = (''Annual_yield'', ''Crop_type'') # [(''Crop_type'', ''Annual_yield'')]"
    by (simp add: sample_processor_def)
  have h2: "df ?self = Some sample_survey"
    by simp
  have h3: "''Annual_yield'' \<noteq> temp_name_loop ''__temp_name_for_swap__'' (columns sample_survey)"
    by (simp add: sample_survey_def)
  from rename_columns_exchanges_names[OF h1 h2 h3] obtain d' where
      "rename_columns ?self = Inr (?self\<lparr>df := Some d'\<rparr>)"
      "columns d' = map (exchanged ''Annual_yield'' ''Crop_type'') (columns sample_survey)"
      "rows d' = rows sample_survey"
    by blast
  then show ?thesis
    by (simp add: sample_survey_def exchanged_def)
qed

text \<open>The one case left out: a first label that is the placeholder the loop picks, hence
  labels no column. The second rename then undoes the first and the labels stay as they
  were, where an exchange would give the column the first label.\<close>

lemma rename_columns_placeholder_key:
  "rename_columns (sample_processor\<lparr>columns_to_rename := [(''__temp_name_for_swap__'', ''Crop_type'')],
       df := Some sample_survey\<rparr>)
     = Inr (sample_processor\<lparr>columns_to_rename := [(''__temp_name_for_swap__'', ''Crop_type'')],
         df := Some sample_survey\<rparr>)"
  by (simp add: rename_columns_def rename_def sample_processor_def sample_survey_def Let_def)

text \<open>
  Claim C8. On a frame that carries both labels, swapping twice with the same mapping
  gives back the object it started from: the labels and the data under them are as before.
\<close>

theorem rename_columns_twice_restores:
  assumes "columns_to_rename self = (column1, column2) # others"
    and "df self = Some d"
    and "column1 \<in> set (columns d)" and "column2 \<in> set (columns d)"
  shows "\<exists>swapped. rename_columns self = Inr swapped \<and> rename_columns swapped = Inr self"
proof -
  let ?d' = "d\<lparr>columns := map (exchanged column1 column2) (columns d)\<rparr>"
  let ?s = "self\<lparr>df := Some ?d'\<rparr>"
  have "column1 \<noteq> temp_name_loop ''__temp_name_for_swap__'' (columns d)"
    using assms(3) temp_name_loop_fresh by metis
  then have first: "rename_columns self = Inr ?s"
    using assms(1,2) by (rule rename_columns_result[rotated 2])
  have "column1 \<in> set (columns ?d')"
    using assms(4) exchanged_member by simp
  then have "column1 \<noteq> temp_name_loop ''__temp_name_for_swap__'' (columns ?d')"
    using temp_name_loop_fresh by metis
  then have "rename_columns ?s =
      Inr (?s\<lparr>df := Some (?d'\<lparr>columns := map (exchanged column1 column2) (columns ?d')\<rparr>)\<rparr>)"
    using assms(1) by (intro rename_columns_result[of ?s column1 column2 others ?d']) simp_all
  also have "\<dots> = Inr self"
    using assms(2) by (simp add: exchanged_twice comp_def)
  finally show ?thesis using first by blast
qed

theorem rename_columns_twice_restores_witness:
  "\<exists>swapped. rename_columns (sample_processor\<lparr>df := Some sample_survey\<rparr>) = Inr swapped
     \<and> rename_columns swapped = Inr (sample_processor\<lparr>df := Some sample_survey\<rparr>)"
proof -
  let ?self = "sample_processor\<lparr>df := Some sample_survey\<rparr>"
  have h1: "columns_to_rename ?self
      = (''Annual_yield'', ''Crop_type'') # [(''Crop_type'', ''Annual_yield'')]"
    by (simp add: sample_processor_def)
  have h2: "df ?self = Some sample_survey"
    by simp
  have h3: "''Annual_yield'' \<in> set (columns sample_survey)"
    and h4: "''Crop_type'' \<in> set (columns sample_survey)"
    by (simp_all add: sample_survey_def)
  from rename_columns_twice_restores[OF h1 h2 h3 h4] show ?thesis .
qed

section \<open>The corrections\<close>

lemma col_index_bound: "col_index c cols = Some i \<Longrightarrow> i < length cols \<and> cols ! i = c"
  by (induction cols arbitrary: i) (auto split: if_splits)

lemma col_index_distinct:
  "col_index a cols = Some i \<Longrightarrow> col_index b cols = Some j \<Longrightarrow> a \<noteq> b \<Longrightarrow> i \<noteq> j"
  using col_index_bound by blast

lemma series_abs_numeric:
  "list_all (\<lambda>c. \<not> is_Str c) col \<Longrightarrow> series_abs col = Inr (map abs_cell col)"
  by (induction col rule: series_abs.induct) simp_all

lemma map2_update_nth:
  assumes "length vs = length rs" and "list_all (\<lambda>r. i < length r) rs"
  shows "map (\<lambda>r. r ! i) (map2 (\<lambda>r v. r[i := v]) rs vs) = vs"
  using assms by (induction rs vs rule: list_induct2') simp_all

lemma map2_update_other:
  assumes "length vs = length rs" and "i \<noteq> j"
  shows "map (\<lambda>r. r ! j) (map2 (\<lambda>r v. r[i := v]) rs vs) = map (\<lambda>r. r ! j) rs"
  using assms by (induction rs vs rule: list_induct2') simp_all

lemma map2_update_length:
  assumes "length vs = length rs" and "list_all (\<lambda>r. length r = n) rs"
  shows "list_all (\<lambda>r. length r = n) (map2 (\<lambda>r v. r[i := v]) rs vs)"
  using assms by (induction rs vs rule: list_induct2') simp_all

lemma getitem_length: "getitem d c = Inr col \<Longrightarrow> length col = length (rows d)"
  by (auto simp: getitem_def split: option.splits)

lemma setitem_existing:
  assumes "col_index c (columns d) = Some i" and "length vs = length (rows d)" and "rectangular d"
  shows "columns (setitem c vs d) = columns d"
    and "length (rows (setitem c vs d)) = length (rows d)"
    and "rectangular (setitem c vs d)"
    and "getitem (setitem c vs d) c = Inr vs"
    and "col_index c' (columns d) = Some j \<Longrightarrow> j \<noteq> i \<Longrightarrow> getitem (setitem c vs d) c' = getitem d c'"
    and "col_index c' (columns d) = None \<Longrightarrow> getitem (setitem c vs d) c' = getitem d c'"
proof -
  have bound: "list_all (\<lambda>r. i < length r) (rows d)"
    using assms(1,3) col_index_bound[OF assms(1)]
    by (auto simp: rectangular_def list_all_iff)
  show "columns (setitem c vs d) = columns d"
    using assms(1) by (simp add: setitem_def)
  show "length (rows (setitem c vs d)) = length (rows d)"
    using assms(1,2) by (simp add: setitem_def)
  show "rectangular (setitem c vs d)"
    using assms map2_update_length[of vs "rows d" "length (columns d)" i]
    by (simp add: setitem_def rectangular_def)
  show "getitem (setitem c vs d) c = Inr vs"
    using assms(1,2) bound map2_update_nth[of vs "rows d" i]
    by (simp add: setitem_def getitem_def)
  show "col_index c' (columns d) = Some j \<Longrightarrow> j \<noteq> i \<Longrightarrow> getitem (setitem c vs d) c' = getitem d c'"
    using assms(1,2) map2_update_other[of vs "rows d" i j]
    by (simp add: setitem_def getitem_def)
  show "col_index c' (columns d) = None \<Longrightarrow> getitem (setitem c vs d) c' = getitem d c'"
    using assms(1) by (simp add: setitem_def getitem_def)
qed

lemma getitem_Inr_index: "getitem d c = Inr col \<Longrightarrow> \<exists>i. col_index c (columns d) = Some i"
  by (auto simp: getitem_def split: option.splits)

lemma apply_corrections_result:
  assumes "df self = Some d" and "rectangular d"
    and "getitem d abs_column = Inr elevations"
    and "getitem d column_name = Inr crops"
    and "abs_column \<noteq> column_name"
    and "list_all (\<lambda>c. \<not> is_Str c) elevations"
  shows "apply_corrections column_name abs_column self =
           Inr (self\<lparr>df := Some (setitem column_name (map (values_get (values_to_rename self)) crops)
                                   (setitem abs_column (map abs_cell elevations) d))\<rparr>)"
    and "getitem (setitem column_name (map (values_get (values_to_rename self)) crops)
                                   (setitem abs_column (map abs_cell elevations) d)) abs_column = Inr (map abs_cell elevations)"
    and "getitem (setitem column_name (map (values_get (values_to_rename self)) crops)
                                   (setitem abs_column (map abs_cell elevations) d)) column_name = Inr (map (values_get (values_to_rename self)) crops)"
    and "columns (setitem column_name (map (values_get (values_to_rename self)) crops)
                                   (setitem abs_column (map abs_cell elevations) d)) = columns d"
    and "length (rows (setitem column_name (map (values_get (values_to_rename self)) crops)
                                   (setitem abs_column (map abs_cell elevations) d))) = length (rows d)"
proof -
  obtain i where i: "col_index abs_column (columns d) = Some i"
    using assms(3) getitem_Inr_index by blast
  obtain j where j: "col_index column_name (columns d) = Some j"
    using assms(4) getitem_Inr_index by blast
  have ij: "j \<noteq> i" using col_index_distinct[OF i j assms(5)] by simp
  let ?d1 = "setitem abs_column (map abs_cell elevations) d"
  let ?new = "map (values_get (values_to_rename self)) crops"
  have len1: "length (map abs_cell elevations) = length (rows d)"
    using getitem_length[OF assms(3)] by simp
  note s1 = setitem_existing[OF i len1 assms(2)]
  have crops1: "getitem ?d1 column_name = Inr crops"
    using s1(5)[OF j ij] assms(4) by simp
  have j1: "col_index column_name (columns ?d1) = Some j"
    using j s1(1) by simp
  have i1: "col_index abs_column (columns ?d1) = Some i"
    using i s1(1) by simp
  have len2: "length ?new = length (rows ?d1)"
    using getitem_length[OF assms(4)] s1(2) by simp
  note s2 = setitem_existing[OF j1 len2 s1(3)]
  show "apply_corrections column_name abs_column self = Inr (self\<lparr>df := Some (setitem column_name ?new ?d1)\<rparr>)"
    using assms(1,3) series_abs_numeric[OF assms(6)] crops1
    by (simp add: apply_corrections_def Let_def)
  show "getitem (setitem column_name ?new ?d1) abs_column = Inr (map abs_cell elevations)"
    using s2(5)[OF i1] ij s1(4) by simp
  show "getitem (setitem column_name ?new ?d1) column_name = Inr ?new"
    using s2(4) .
  show "columns (setitem column_name ?new ?d1) = columns d"
    using s2(1) s1(1) by simp
  show "length (rows (setitem column_name ?new ?d1)) = length (rows d)"
    using s2(2) s1(2) by simp
qed

lemma values_get_known:
  "c = Str s \<Longrightarrow> map_of vr s = Some t \<Longrightarrow> values_get vr c = Str t"
  by simp

lemma values_get_unknown:
  "(\<forall>s t. c = Str s \<longrightarrow> map_of vr s \<noteq> Some t) \<Longrightarrow> values_get vr c = c"
  by (cases c) (auto split: option.splits)

lemma abs_cell_nonneg: "Num x \<in> set (map abs_cell col) \<Longrightarrow> 0 \<le> x"
proof -
  assume "Num x \<in> set (map abs_cell col)"
  then obtain c where "c \<in> set col" and "abs_cell c = Num x" by auto
  from this(2) show "0 \<le> x" by (cases c) auto
qed

text \<open>
  Claim C6. On a rectangular frame that has both columns, the numeric one holding no text,
  \<^verbatim>\<open>apply_corrections\<close> succeeds whatever the values of the categorical column are.
  Afterwards the numeric column holds, row by row, the absolute value of what it held
  (so no number in it is negative), and the categorical column holds the lookup's image
  of a value the lookup knows and the unchanged value otherwise.
\<close>

theorem apply_corrections_corrects:
  assumes "df self = Some d" and "rectangular d"
    and "getitem d abs_column = Inr elevations"
    and "getitem d column_name = Inr crops"
    and "abs_column \<noteq> column_name"
    and "list_all (\<lambda>c. \<not> is_Str c) elevations"
  shows "\<exists>d' elevations' crops'.
           apply_corrections column_name abs_column self = Inr (self\<lparr>df := Some d'\<rparr>)
         \<and> columns d' = columns d \<and> length (rows d') = length (rows d)
         \<and> getitem d' abs_column = Inr elevations'
         \<and> getitem d' column_name = Inr crops'
         \<and> (\<forall>i < length (rows d).
               (\<forall>x. elevations ! i = Num x \<longrightarrow> elevations' ! i = Num \<bar>x\<bar>)
             \<and> (elevations ! i = Null \<longrightarrow> elevations' ! i = Null)
             \<and> (\<forall>s t. crops ! i = Str s \<and> map_of (values_to_rename self) s = Some t
                    \<longrightarrow> crops' ! i = Str t)
             \<and> ((\<forall>s t. crops ! i = Str s \<longrightarrow> map_of (values_to_rename self) s \<noteq> Some t)
                    \<longrightarrow> crops' ! i = crops ! i))
         \<and> (\<forall>x. Num x \<in> set elevations' \<longrightarrow> 0 \<le> x)"
proof -
  let ?e = "map abs_cell elevations"
  let ?c = "map (values_get (values_to_rename self)) crops"
  let ?d' = "setitem column_name ?c (setitem abs_column ?e d)"
  note r = apply_corrections_result[OF assms]
  have le: "length elevations = length (rows d)" and lc: "length crops = length (rows d)"
    using getitem_length assms(3,4) by blast+
  have rowwise: "(\<forall>x. elevations ! i = Num x \<longrightarrow> ?e ! i = Num \<bar>x\<bar>)
             \<and> (elevations ! i = Null \<longrightarrow> ?e ! i = Null)
             \<and> (\<forall>s t. crops ! i = Str s \<and> map_of (values_to_rename self) s = Some t
                    \<longrightarrow> ?c ! i = Str t)
             \<and> ((\<forall>s t. crops ! i = Str s \<longrightarrow> map_of (values_to_rename self) s \<noteq> Some t)
                    \<longrightarrow> ?c ! i = crops ! i)" if "i < length (rows d)" for i
    using that le lc values_get_unknown[of "crops ! i" "values_to_rename self"]
    by (simp add: values_get_known)
  have nonneg: "\<forall>x. Num x \<in> set ?e \<longrightarrow> 0 \<le> x"
    using abs_cell_nonneg by blast
  show ?thesis
    apply (rule exI[of _ ?d'], rule exI[of _ ?e], rule exI[of _ ?c])
    using r rowwise nonneg by blast
qed

theorem apply_corrections_corrects_witness:
  "apply_corrections ''Crop_type'' ''Elevation'' (sample_processor\<lparr>df := Some sample_swapped\<rparr>)
     = Inr (sample_processor\<lparr>df := Some
         \<lparr>columns = [''Field_ID'', ''Elevation'', ''Crop_type'', ''Annual_yield''],
          rows = [[Num 1, Num 5, Str ''wheat'', Num 2],
                  [Num 2, Num 3, Str ''maize'', Num 4]]\<rparr>\<rparr>)"
proof -
  let ?self = "sample_processor\<lparr>df := Some sample_swapped\<rparr>"
  have h1: "df ?self = Some sample_swapped" by simp
  have h2: "rectangular sample_swapped"
    by (simp add: rectangular_def sample_swapped_def)
  have h3: "getitem sample_swapped ''Elevation'' = Inr [Num (-5), Num 3]"
    by (simp add: getitem_def sample_swapped_def)
  have h4: "getitem sample_swapped ''Crop_type'' = Inr [Str ''wheatn'', Str ''maize'']"
    by (simp add: getitem_def sample_swapped_def)
  have h5: "''Elevation'' \<noteq> ''Crop_type''" by simp
  have h6: "list_all (\<lambda>c. \<not> is_Str c) [Num (-5), Num 3]" by simp
  from apply_corrections_corrects[OF h1 h2 h3 h4 h5 h6] show ?thesis
    by (simp add: sample_processor_def sample_swapped_def apply_corrections_def getitem_def
        setitem_def Let_def)
qed

section \<open>The fusion with the station mapping\<close>


















section \<open>An empty rename mapping\<close>

text \<open>
  Claim C9, as the code has it. The constructor accepts a configuration whose rename
  mapping is empty. \<^verbatim>\<open>process\<close> then fails with \<^verbatim>\<open>IndexError\<close>, raised by
  \<^verbatim>\<open>rename_columns\<close> after the ingestion: the object it leaves behind holds the engine and
  the queried frame, unchanged; neither the corrections nor the fusion have run.
\<close>

theorem empty_mapping_fails_after_ingestion:
  "FieldDataProcessor_init
     \<lparr>cfg_db_path = Some p, cfg_sql_query = Some q, cfg_columns_to_rename = Some [],
      cfg_values_to_rename = Some vr, cfg_weather_mapping_csv = Some m,
      cfg_weather_csv_path = wp, cfg_regex_patterns = rp\<rparr>
     = Inr \<lparr>db_path = p, sql_query = q, columns_to_rename = [], values_to_rename = vr,
            weather_map_data = m, df = None, engine = None\<rparr>
   \<and> process queried weather_map_df
       \<lparr>db_path = p, sql_query = q, columns_to_rename = [], values_to_rename = vr,
        weather_map_data = m, df = None, engine = None\<rparr>
     = Inl (IndexError,
         \<lparr>db_path = p, sql_query = q, columns_to_rename = [], values_to_rename = vr,
          weather_map_data = m, df = Some queried, engine = Some p\<rparr>)"
  by (simp add: FieldDataProcessor_init_def process_def ingest_sql_data_def rename_columns_def)

text \<open>The claim as stated fails on the sample: the constructor raises nothing, and when
  \<^verbatim>\<open>process\<close> fails the survey table has been ingested.\<close>

theorem empty_mapping_counterexample:
  "FieldDataProcessor_init empty_rename_config = Inr (sample_processor\<lparr>columns_to_rename := []\<rparr>)
   \<and> process sample_survey sample_mapping (sample_processor\<lparr>columns_to_rename := []\<rparr>)
     = Inl (IndexError, sample_processor\<lparr>columns_to_rename := [],
         engine := Some ''sqlite:///Maji_Ndogo_farm_survey_small.db'', df := Some sample_survey\<rparr>)"
  by (simp add: FieldDataProcessor_init_def process_def ingest_sql_data_def rename_columns_def
      empty_rename_config_def sample_processor_def)

section \<open>The weather messages\<close>

text \<open>
  Claim C7, at a weather table without rows: \<^verbatim>\<open>process_messages\<close> does not return the
  table with its two new columns, it raises \<^verbatim>\<open>ValueError\<close>, since \<^verbatim>\<open>zip(*result)\<close> yields
  nothing to unpack.
\<close>

theorem process_messages_empty_frame_raises:
  "process_messages re_search py_float
     \<lparr>weather_station_data = url, patterns = ps,
      weather_df = Some \<lparr>columns = [''Weather_station_ID'', ''Message''], rows = []\<rparr>\<rparr>
     = Inl ValueError"
  by (simp add: process_messages_def getitem_def)

lemma first_not_none_replicate: "first_not_none (replicate n None @ Some x # gs) = Some x"
  by (induction n) simp_all

lemma extract_measurement_skip:
  assumes "\<forall>(k, p) \<in> set before. re_search p text = Inr None"
  shows "extract_measurement re_search py_float (before @ rest) (Str text)
       = extract_measurement re_search py_float rest (Str text)"
  using assms by (induction before) auto

text \<open>
  Claim C4. On a text message \<^verbatim>\<open>extract_measurement\<close> returns \<open>(None, None)\<close> when no
  pattern matches. Otherwise the first pattern of the mapping that matches decides,
  whatever the later patterns would find and wherever they would find it: the result is
  its key and the number \<^verbatim>\<open>float\<close> reads from its first group that took part in the
  match.
\<close>

theorem extract_measurement_first_match:
  "((\<forall>(k, p) \<in> set pats. re_search p text = Inr None)
      \<longrightarrow> extract_measurement re_search py_float pats (Str text) = Inr (None, None))
   \<and> (pats = before @ (key, pattern) # after
      \<and> (\<forall>(k, p) \<in> set before. re_search p text = Inr None)
      \<and> re_search pattern text = Inr (Some (replicate n None @ Some x # groups))
      \<and> py_float x = Inr v
      \<longrightarrow> extract_measurement re_search py_float pats (Str text) = Inr (Some key, Some v))"
proof (intro conjI impI)
  assume "\<forall>(k, p) \<in> set pats. re_search p text = Inr None"
  then show "extract_measurement re_search py_float pats (Str text) = Inr (None, None)"
    using extract_measurement_skip[of pats re_search "text" py_float "[]"] by simp
next
  assume a: "pats = before @ (key, pattern) # after
      \<and> (\<forall>(k, p) \<in> set before. re_search p text = Inr None)
      \<and> re_search pattern text = Inr (Some (replicate n None @ Some x # groups))
      \<and> py_float x = Inr v"
  then have "extract_measurement re_search py_float pats (Str text)
      = extract_measurement re_search py_float ((key, pattern) # after) (Str text)"
    using extract_measurement_skip[of before re_search "text" py_float "(key, pattern) # after"]
    by simp
  also have "\<dots> = Inr (Some key, Some v)"
    using a by (simp add: first_not_none_replicate)
  finally show "extract_measurement re_search py_float pats (Str text) = Inr (Some key, Some v)" .
qed

theorem extract_measurement_first_match_witness:
  "extract_measurement recorded_search recorded_float regex_patterns (Str ''Rain 12mm at 3C'')
     = Inr (Some ''Rainfall'', Some (Finite 12))
   \<and> extract_measurement recorded_search recorded_float regex_patterns (Str ''Pollution at 2.3 ppm'')
     = Inr (Some ''Pollution_level'', Some (Finite 2.3))
   \<and> extract_measurement recorded_search recorded_float regex_patterns (Str ''Clear skies'')
     = Inr (None, None)"
proof -
  have none: "\<forall>(k, p) \<in> set regex_patterns. recorded_search p ''Clear skies'' = Inr None"
    by (simp add: regex_patterns_def recorded_search_def)
  have rain: "regex_patterns = [] @ (''Rainfall'', rainfall_pattern) #
        [(''Temperature'', temperature_pattern), (''Pollution_level'', pollution_pattern)]
      \<and> (\<forall>(k, p) \<in> set []. recorded_search p ''Rain 12mm at 3C'' = Inr None)
      \<and> recorded_search rainfall_pattern ''Rain 12mm at 3C''
          = Inr (Some (replicate 0 None @ Some ''12'' # [None]))
      \<and> recorded_float ''12'' = Inr (Finite 12)"
    by (simp add: regex_patterns_def recorded_search_def recorded_float_def
        rainfall_pattern_def temperature_pattern_def pollution_pattern_def backslash_def)
  have poll: "regex_patterns = [(''Rainfall'', rainfall_pattern), (''Temperature'', temperature_pattern)]
        @ (''Pollution_level'', pollution_pattern) # []
      \<and> (\<forall>(k, p) \<in> set [(''Rainfall'', rainfall_pattern), (''Temperature'', temperature_pattern)].
            recorded_search p ''Pollution at 2.3 ppm'' = Inr None)
      \<and> recorded_search pollution_pattern ''Pollution at 2.3 ppm''
          = Inr (Some (replicate 2 None @ Some ''2.3'' # [Some ''.3'']))
      \<and> recorded_float ''2.3'' = Inr (Finite 2.3)"
    by (simp add: regex_patterns_def recorded_search_def recorded_float_def numeral_2_eq_2
        rainfall_pattern_def temperature_pattern_def pollution_pattern_def backslash_def)
  from extract_measurement_first_match[of regex_patterns recorded_search "''Clear skies''"
      recorded_float, THEN conjunct1, THEN mp, OF none]
    extract_measurement_first_match[of regex_patterns recorded_search "''Rain 12mm at 3C''"
      recorded_float "[]" "''Rainfall''" rainfall_pattern _ 0 "''12''" "[None]" "Finite 12",
      THEN conjunct2, THEN mp, OF rain]
    extract_measurement_first_match[of regex_patterns recorded_search "''Pollution at 2.3 ppm''"
      recorded_float _ "''Pollution_level''" pollution_pattern "[]" 2 "''2.3''" "[Some ''.3'']"
      "Finite 2.3", THEN conjunct2, THEN mp, OF poll]
  show ?thesis by simp
qed

lemma series_apply_length: "series_apply f xs = Inr ys \<Longrightarrow> length ys = length xs"
  by (induction xs arbitrary: ys) (auto split: sum.splits)

lemma col_index_None: "col_index c cols = None \<longleftrightarrow> c \<notin> set cols"
  by (induction cols) auto

lemma append_two_columns:
  "length result = length rs \<Longrightarrow>
     map2 (\<lambda>r v. r @ [v]) (map2 (\<lambda>r v. r @ [v]) rs (map (f \<circ> fst) result)) (map (g \<circ> snd) result)
       = map2 (\<lambda>r (k, v). r @ [f k, g v]) rs result"
  by (induction result rs rule: list_induct2) (auto split: prod.splits)

lemma setitem_new:
  "c \<notin> set (columns d) \<Longrightarrow>
     setitem c vs d = d\<lparr>columns := columns d @ [c], rows := map2 (\<lambda>r v. r @ [v]) (rows d) vs\<rparr>"
  by (simp add: setitem_def col_index_None[THEN iffD2])

text \<open>On a table that has rows, a \<^verbatim>\<open>Message\<close> column and neither derived column yet,
  and whose messages all extract without an exception, the rows are kept one for one and
  in order, each with its two new cells.\<close>

lemma process_messages_keeps_rows:
  assumes "weather_df self = Some d"
    and "getitem d ''Message'' = Inr messages"
    and "rows d \<noteq> []"
    and "series_apply (extract_measurement re_search py_float (patterns self)) messages = Inr result"
    and "''Measurement'' \<notin> set (columns d)" and "''Value'' \<notin> set (columns d)"
  shows "\<exists>d'. process_messages re_search py_float self = Inr (self\<lparr>weather_df := Some d'\<rparr>)
           \<and> columns d' = columns d @ [''Measurement'', ''Value'']
           \<and> rows d' = map2 (\<lambda>r (k, v). r @ [measurement_cell k, value_cell v]) (rows d) result
           \<and> length (rows d') = length (rows d)"
proof -
  have len: "length result = length (rows d)"
    using series_apply_length[OF assms(4)] getitem_length[OF assms(2)] by simp
  with assms(3) have ne: "result \<noteq> []" by auto
  let ?ms = "map (measurement_cell \<circ> fst) result"
  let ?vs = "map (value_cell \<circ> snd) result"
  let ?d1 = "d\<lparr>columns := columns d @ [''Measurement''],
      rows := map2 (\<lambda>r v. r @ [v]) (rows d) ?ms\<rparr>"
  have d1: "setitem ''Measurement'' ?ms d = ?d1"
    using assms(5) by (rule setitem_new)
  have "''Value'' \<notin> set (columns ?d1)"
    using assms(6) by simp
  then have "setitem ''Value'' ?vs ?d1
      = ?d1\<lparr>columns := columns ?d1 @ [''Value''], rows := map2 (\<lambda>r v. r @ [v]) (rows ?d1) ?vs\<rparr>"
    by (rule setitem_new)
  also have "\<dots> = d\<lparr>columns := columns d @ [''Measurement'', ''Value''],
          rows := map2 (\<lambda>r (k, v). r @ [measurement_cell k, value_cell v]) (rows d) result\<rparr>"
    using append_two_columns[OF len, of measurement_cell value_cell] by simp
  finally have d2: "setitem ''Value'' ?vs (setitem ''Measurement'' ?ms d)
      = d\<lparr>columns := columns d @ [''Measurement'', ''Value''],
          rows := map2 (\<lambda>r (k, v). r @ [measurement_cell k, value_cell v]) (rows d) result\<rparr>"
    by (simp only: d1)
  let ?d' = "d\<lparr>columns := columns d @ [''Measurement'', ''Value''],
          rows := map2 (\<lambda>r (k, v). r @ [measurement_cell k, value_cell v]) (rows d) result\<rparr>"
  have "process_messages re_search py_float self
      = Inr (self\<lparr>weather_df := Some (setitem ''Value'' ?vs (setitem ''Measurement'' ?ms d))\<rparr>)"
    using assms(1,2,4) ne by (simp add: process_messages_def)
  then have "process_messages re_search py_float self = Inr (self\<lparr>weather_df := Some ?d'\<rparr>)"
    by (simp only: d2)
  moreover have "length (rows ?d') = length (rows d)"
    using len by simp
  ultimately show ?thesis
    by (intro exI[of _ ?d']) simp
qed

lemma process_messages_sample:
  "process_messages recorded_search recorded_float
     \<lparr>weather_station_data = ''Weather_station_data.csv'', patterns = regex_patterns,
      weather_df = Some sample_weather\<rparr>
   = Inr \<lparr>weather_station_data = ''Weather_station_data.csv'', patterns = regex_patterns,
      weather_df = Some sample_parsed\<rparr>"
  by (simp add: process_messages_def getitem_def setitem_def sample_weather_def sample_parsed_def
      regex_patterns_def recorded_search_def recorded_float_def
      rainfall_pattern_def temperature_pattern_def pollution_pattern_def backslash_def)

section \<open>The comparison\<close>

lemma tests_append: "tests (xs @ ys) = tests xs @ tests ys"
  by (induction xs rule: tests.induct) simp_all

lemma measurement_loop_tests_snd:
  "fst (measurement_loop t f w alpha s ms) = None \<Longrightarrow>
     tests (snd (measurement_loop t f w alpha s ms)) = map (Pair s) ms"
  by (induction ms) (auto simp: Let_def split: sum.splits)

lemma measurement_loop_tests:
  "measurement_loop t f w alpha s ms = (None, evs) \<Longrightarrow> tests evs = map (Pair s) ms"
  using measurement_loop_tests_snd[of t f w alpha s ms] by simp

lemma measurement_loop_stations_snd:
  "ev \<in> set (snd (measurement_loop t f w alpha s ms)) \<Longrightarrow> station_of ev = Some s"
  by (induction ms) (auto simp: Let_def print_ttest_results_def split: sum.splits if_splits)

lemma measurement_loop_stations:
  "measurement_loop t f w alpha s ms = (err, evs) \<Longrightarrow> ev \<in> set evs \<Longrightarrow> station_of ev = Some s"
  using measurement_loop_stations_snd[of ev t f w alpha s ms] by simp

lemma station_loop_tests:
  "station_loop t f w alpha stations = (None, evs) \<Longrightarrow>
     tests evs = List.product stations measurements_to_compare"
proof (induction stations arbitrary: evs)
  case Nil
  then show ?case by simp
next
  case (Cons s stations)
  obtain e1 evs1 where m: "measurement_loop t f w alpha s measurements_to_compare = (e1, evs1)"
    by (cases "measurement_loop t f w alpha s measurements_to_compare")
  obtain e2 evs2 where r: "station_loop t f w alpha stations = (e2, evs2)"
    by (cases "station_loop t f w alpha stations")
  from Cons.prems m r have e: "e1 = None" "e2 = None" "evs = evs1 @ Print Empty_line # evs2"
    by (auto simp: Let_def split: option.splits)
  from Cons.IH[of evs2] r e(2) have "tests evs2 = List.product stations measurements_to_compare"
    by simp
  moreover from measurement_loop_tests m e(1) have "tests evs1 = map (Pair s) measurements_to_compare"
    by blast
  ultimately show ?case
    by (simp add: e(3) tests_append)
qed

lemma station_loop_stations:
  "station_loop t f w alpha stations = (err, evs) \<Longrightarrow> ev \<in> set evs \<Longrightarrow>
     station_of ev = Some s \<Longrightarrow> s \<in> set stations"
proof (induction stations arbitrary: evs err)
  case Nil
  then show ?case by simp
next
  case (Cons s' stations)
  obtain e1 evs1 where m: "measurement_loop t f w alpha s' measurements_to_compare = (e1, evs1)"
    by (cases "measurement_loop t f w alpha s' measurements_to_compare")
  obtain e2 evs2 where r: "station_loop t f w alpha stations = (e2, evs2)"
    by (cases "station_loop t f w alpha stations")
  show ?case
  proof (cases e1)
    case (Some e)
    with Cons.prems m have "evs = evs1" by simp
    with Cons.prems(2,3) measurement_loop_stations[OF m] show ?thesis by auto
  next
    case None
    with Cons.prems(1) m r have "evs = evs1 @ Print Empty_line # evs2"
      by (simp add: Let_def)
    with Cons.prems(2,3) consider "ev \<in> set evs1" | "ev \<in> set evs2" by auto
    then show ?thesis
    proof cases
      case 1
      with Cons.prems(3) measurement_loop_stations[OF m] show ?thesis by auto
    next
      case 2
      with Cons.IH[OF r _ Cons.prems(3)] show ?thesis by simp
    qed
  qed
qed

lemma unique_seen_set: "set (unique_seen seen xs) = set xs - set seen"
  by (induction xs arbitrary: seen) auto

lemma unique_seen_distinct: "distinct (unique_seen seen xs)"
  by (induction xs arbitrary: seen) (auto simp: unique_seen_set)

lemma unique_set: "set (unique xs) = set xs"
  by (simp add: unique_def unique_seen_set)

lemma unique_distinct: "distinct (unique xs)"
  by (simp add: unique_def unique_seen_distinct)

lemma all_Num_image: "list_all is_Num xs \<Longrightarrow> map Num (map num_of xs) = xs"
  by (induction xs) (auto elim: is_Num.elims)

lemma all_Str_image: "list_all is_Str xs \<Longrightarrow> map Str (map str_of xs) = xs"
  by (induction xs) (auto elim: is_Str.elims)

lemma enumerate_cells: "snd ` set (enumerate 0 xs) = set xs"
  by (metis map_snd_enumerate set_map)

lemma nan_arranged_set: "set (map snd (sort_key f (enumerate 0 xs))) = set xs"
  by (simp add: enumerate_cells)

lemma nan_arranged_distinct:
  assumes "distinct xs"
  shows "distinct (map snd (sort_key f (enumerate 0 xs)))"
proof -
  have "inj_on snd (set (enumerate 0 xs))"
    by (metis assms distinct_map map_snd_enumerate)
  then show ?thesis
    by (simp add: distinct_map distinct_enumerate)
qed

lemma py_sorted_set: "py_sorted r xs = Inr ys \<Longrightarrow> set ys = set xs"
proof -
  assume a: "py_sorted r xs = Inr ys"
  have n: "set (map Num (sort (map num_of xs))) = set xs" if "list_all is_Num xs"
    using all_Num_image[OF that] by (metis set_map set_sort)
  have s: "set (map Str (sort (map str_of xs))) = set xs" if "list_all is_Str xs"
    using all_Str_image[OF that] by (metis set_map set_sort)
  from a n s nan_arranged_set[of "\<lambda>(i, c). r xs i" xs] show ?thesis
    by (auto simp: py_sorted_def split: if_splits)
qed

lemma sorted_numbers_distinct:
  assumes "list_all is_Num xs" and "distinct xs"
  shows "distinct (sort (map num_of xs))"
proof -
  have "distinct (map Num (map num_of xs))"
    using all_Num_image[OF assms(1)] assms(2) by simp
  then have "distinct (map num_of xs)"
    using distinct_map[of Num "map num_of xs"] by blast
  then show ?thesis by simp
qed

lemma sorted_texts_distinct:
  assumes "list_all is_Str xs" and "distinct xs"
  shows "distinct (sort (map str_of xs))"
proof -
  have "distinct (map Str (map str_of xs))"
    using all_Str_image[OF assms(1)] assms(2) by simp
  then have "distinct (map str_of xs)"
    using distinct_map[of Str "map str_of xs"] by blast
  then show ?thesis by simp
qed

lemma py_sorted_distinct:
  assumes "py_sorted r xs = Inr ys" and "distinct xs"
  shows "distinct ys"
proof -
  have n: "distinct (map Num (sort (map num_of xs)))" if "list_all is_Num xs"
    using sorted_numbers_distinct[OF that assms(2)] by (simp add: distinct_map inj_on_def)
  have s: "distinct (map Str (sort (map str_of xs)))" if "list_all is_Str xs"
    using sorted_texts_distinct[OF that assms(2)] by (simp add: distinct_map inj_on_def)
  from assms n s nan_arranged_distinct[OF assms(2), of "\<lambda>(i, c). r xs i"] show ?thesis
    by (auto simp: py_sorted_def split: if_splits)
qed

lemma py_sorted_ascending:
  assumes "py_sorted r xs = Inr ys" and "distinct xs"
    and "list_all is_Num xs \<or> list_all is_Str xs"
  shows "sorted_wrt cell_lt ys"
proof -
  have short: "sorted_wrt cell_lt xs" if "length xs \<le> 1"
    using that by (cases xs) auto
  have n: "sorted_wrt cell_lt (map Num (sort (map num_of xs)))" if "list_all is_Num xs"
  proof -
    have "sorted_wrt (<) (sort (map num_of xs))"
      using sorted_numbers_distinct[OF that assms(2)] by (simp add: strict_sorted_iff)
    then show ?thesis
      by (simp add: sorted_wrt_map)
  qed
  have s: "sorted_wrt cell_lt (map Str (sort (map str_of xs)))" if "list_all is_Str xs"
  proof -
    have "sorted_wrt (<) (sort (map str_of xs))"
      using sorted_texts_distinct[OF that assms(2)] by (simp add: strict_sorted_iff)
    then show ?thesis
      by (simp add: sorted_wrt_map)
  qed
  from assms(1,3) short n s show ?thesis
    by (auto simp: py_sorted_def split: if_splits)
qed

lemma unique_all: "list_all P xs \<Longrightarrow> list_all P (unique xs)"
  by (simp add: list_all_iff unique_set)

lemma hypothesis_results_sample:
  "hypothesis_results recorded_rank undefined_ttest sample_fused sample_parsed l (Finite 0.05)
     = (None,
        [Ttest (Num 0) ''Temperature'',
         Print (No_significant_difference ''Temperature'' (Num 0) NaN (Finite 0.05)),
         Ttest (Num 0) ''Rainfall'',
         Print (No_significant_difference ''Rainfall'' (Num 0) NaN (Finite 0.05)),
         Ttest (Num 0) ''Pollution_level'',
         Print (No_significant_difference ''Pollution_level'' (Num 0) NaN (Finite 0.05)),
         Print Empty_line,
         Ttest (Num 1) ''Temperature'',
         Print (No_significant_difference ''Temperature'' (Num 1) NaN (Finite 0.05)),
         Ttest (Num 1) ''Rainfall'',
         Print (No_significant_difference ''Rainfall'' (Num 1) NaN (Finite 0.05)),
         Ttest (Num 1) ''Pollution_level'',
         Print (No_significant_difference ''Pollution_level'' (Num 1) NaN (Finite 0.05)),
         Print Empty_line])"
  by (simp add: hypothesis_results_def getitem_def sample_parsed_def sample_fused_def unique_def
      py_sorted_def measurements_to_compare_def filter_field_data_def filter_weather_data_def
      select_rows_def run_ttest_def undefined_ttest_def print_ttest_results_def Let_def)

text \<open>
  Claim C1, as the code has it. A p-value that is not a number fails the comparison
  \<^verbatim>\<open>p_val <= alpha\<close>, so \<^verbatim>\<open>print_ttest_results\<close> prints the line "No significant
  difference", with the not-a-number as the p-value it shows; a finite p-value is
  significant exactly when it is at most the threshold. In the loop, a test whose p-value
  is not a number is reported by that line and nothing else.
\<close>

theorem nan_p_value_printed_as_not_significant:
  "print_ttest_results station_id measurement NaN alpha
     = No_significant_difference measurement station_id NaN alpha
   \<and> print_ttest_results station_id measurement (Finite p) (Finite a)
     = (if p \<le> a then Significant_difference measurement station_id (Finite p) (Finite a)
        else No_significant_difference measurement station_id (Finite p) (Finite a))
   \<and> (filter_field_data field_df station_id measurement = Inr field_values
      \<and> filter_weather_data weather_df' station_id measurement = Inr weather_values
      \<and> snd (ttest_ind field_values weather_values) = NaN
      \<longrightarrow> measurement_loop ttest_ind field_df weather_df' alpha station_id [measurement]
          = (None, [Ttest station_id measurement,
                    Print (No_significant_difference measurement station_id NaN alpha)]))"
  by (simp add: print_ttest_results_def run_ttest_def Let_def)

theorem nan_p_value_printed_as_not_significant_witness:
  "measurement_loop undefined_ttest sample_fused sample_parsed (Finite 0.05) (Num 1) [''Temperature'']
     = (None, [Ttest (Num 1) ''Temperature'',
               Print (No_significant_difference ''Temperature'' (Num 1) NaN (Finite 0.05))])"
proof -
  have h: "filter_field_data sample_fused (Num 1) ''Temperature'' = Inr [Num 19.8]
      \<and> filter_weather_data sample_parsed (Num 1) ''Temperature'' = Inr [Num 5.28]
      \<and> snd (undefined_ttest [Num 19.8] [Num 5.28]) = NaN"
    by (simp add: filter_field_data_def filter_weather_data_def getitem_def select_rows_def
        sample_fused_def sample_parsed_def undefined_ttest_def)
  from nan_p_value_printed_as_not_significant[of "Num 1" "''Temperature''" "Finite 0.05" _ _
      sample_fused "[Num 19.8]" sample_parsed "[Num 5.28]" undefined_ttest,
      THEN conjunct2, THEN conjunct2, THEN mp, OF h]
  show ?thesis .
qed

text \<open>The claim as stated fails on the sample: the undefined p-value of station 1's
  temperature test is printed as "No significant difference".\<close>

theorem nan_p_value_counterexample:
  "print_ttest_results (Num 1) ''Temperature'' NaN (Finite 0.05)
     = No_significant_difference ''Temperature'' (Num 1) NaN (Finite 0.05)
   \<and> Print (No_significant_difference ''Temperature'' (Num 1) NaN (Finite 0.05))
     \<in> set (snd (hypothesis_results recorded_rank undefined_ttest sample_fused sample_parsed
         measurements_to_compare (Finite 0.05)))"
  unfolding hypothesis_results_sample by (simp add: print_ttest_results_def)

text \<open>
  Claim C2, as the code has it. The result of \<^verbatim>\<open>hypothesis_results\<close> does not depend on
  the list of measurements it is given. When it runs to the end, the tests are those of
  every station id of the weather table, each once, in the order Python's \<^verbatim>\<open>sorted\<close>
  returns them, and for each station the measurements Temperature, Rainfall,
  Pollution\_level in this order. That order of the stations is ascending when the ids are
  all numbers or all texts, none of them missing.
\<close>

theorem hypothesis_results_order:
  "hypothesis_results nan_rank ttest_ind field_df weather_df' list1 alpha
     = hypothesis_results nan_rank ttest_ind field_df weather_df' list2 alpha
   \<and> measurements_to_compare = [''Temperature'', ''Rainfall'', ''Pollution_level'']
   \<and> (hypothesis_results nan_rank ttest_ind field_df weather_df' list1 alpha = (None, evs)
      \<longrightarrow> (\<exists>ids stations. getitem weather_df' ''Weather_station_ID'' = Inr ids
            \<and> py_sorted nan_rank (unique ids) = Inr stations
            \<and> set stations = set ids \<and> distinct stations
            \<and> tests evs = List.product stations measurements_to_compare
            \<and> (list_all is_Num ids \<or> list_all is_Str ids \<longrightarrow> sorted_wrt cell_lt stations)))"
proof (intro conjI impI)
  show "hypothesis_results nan_rank ttest_ind field_df weather_df' list1 alpha
     = hypothesis_results nan_rank ttest_ind field_df weather_df' list2 alpha"
    by (simp add: hypothesis_results_def)
  show "measurements_to_compare = [''Temperature'', ''Rainfall'', ''Pollution_level'']"
    by (simp add: measurements_to_compare_def)
  assume a: "hypothesis_results nan_rank ttest_ind field_df weather_df' list1 alpha = (None, evs)"
  then obtain ids where ids: "getitem weather_df' ''Weather_station_ID'' = Inr ids"
    by (auto simp: hypothesis_results_def split: sum.splits)
  with a obtain stations where st: "py_sorted nan_rank (unique ids) = Inr stations"
    by (auto simp: hypothesis_results_def split: sum.splits)
  with a ids have "station_loop ttest_ind field_df weather_df' alpha stations = (None, evs)"
    by (simp add: hypothesis_results_def)
  then have "tests evs = List.product stations measurements_to_compare"
    by (rule station_loop_tests)
  moreover have "set stations = set ids"
    using py_sorted_set[OF st] unique_set[of ids] by simp
  moreover have "distinct stations"
    using py_sorted_distinct[OF st unique_distinct] .
  moreover have "sorted_wrt cell_lt stations" if "list_all is_Num ids \<or> list_all is_Str ids"
    using py_sorted_ascending[OF st unique_distinct] that unique_all by blast
  ultimately show "\<exists>ids stations. getitem weather_df' ''Weather_station_ID'' = Inr ids
            \<and> py_sorted nan_rank (unique ids) = Inr stations
            \<and> set stations = set ids \<and> distinct stations
            \<and> tests evs = List.product stations measurements_to_compare
            \<and> (list_all is_Num ids \<or> list_all is_Str ids \<longrightarrow> sorted_wrt cell_lt stations)"
    using ids st by blast
qed

theorem hypothesis_results_order_witness:
  "\<exists>evs. hypothesis_results recorded_rank undefined_ttest sample_fused sample_parsed [''Rainfall'']
          (Finite 0.05) = (None, evs)
     \<and> hypothesis_results recorded_rank undefined_ttest sample_fused sample_parsed []
          (Finite 0.05) = (None, evs)
     \<and> tests evs = List.product [Num 0, Num 1] measurements_to_compare
     \<and> sorted_wrt cell_lt [Num 0, Num 1]"
proof -
  obtain evs where
    h: "hypothesis_results recorded_rank undefined_ttest sample_fused sample_parsed [''Rainfall'']
          (Finite 0.05) = (None, evs)"
    using hypothesis_results_sample by blast
  note t = hypothesis_results_order[of recorded_rank undefined_ttest sample_fused sample_parsed
      "[''Rainfall'']" "Finite 0.05" "[]" evs]
  from t h have same:
    "hypothesis_results recorded_rank undefined_ttest sample_fused sample_parsed [] (Finite 0.05)
       = (None, evs)"
    by simp
  from t[THEN conjunct2, THEN conjunct2, THEN mp, OF h] obtain ids stations where
    s: "getitem sample_parsed ''Weather_station_ID'' = Inr ids"
      "py_sorted recorded_rank (unique ids) = Inr stations"
      "tests evs = List.product stations measurements_to_compare"
      "list_all is_Num ids \<or> list_all is_Str ids \<longrightarrow> sorted_wrt cell_lt stations"
    by blast
  from s(1) have ids: "ids = [Num 1, Num 0, Num 0]"
    by (simp add: getitem_def sample_parsed_def)
  with s(2) have st: "stations = [Num 0, Num 1]"
    by (simp add: py_sorted_def unique_def)
  from ids have "list_all is_Num ids \<or> list_all is_Str ids"
    by simp
  with s(3,4) st h same show ?thesis
    by blast
qed

text \<open>The claim as stated fails on the table with a missing station id: the run goes to
  the end and tests station 3 first and station 1 last.\<close>

theorem hypothesis_results_order_counterexample:
  "fst (hypothesis_results recorded_rank undefined_ttest sample_fused sample_missing_id
         measurements_to_compare (Finite 0.05)) = None
   \<and> tests (snd (hypothesis_results recorded_rank undefined_ttest sample_fused sample_missing_id
         measurements_to_compare (Finite 0.05)))
     = [(Num 3, ''Temperature''), (Num 3, ''Rainfall''), (Num 3, ''Pollution_level''),
        (Null, ''Temperature''), (Null, ''Rainfall''), (Null, ''Pollution_level''),
        (Num 1, ''Temperature''), (Num 1, ''Rainfall''), (Num 1, ''Pollution_level'')]"
  by (simp add: hypothesis_results_def getitem_def sample_missing_id_def sample_fused_def
      unique_def py_sorted_def recorded_rank_def measurements_to_compare_def
      filter_field_data_def filter_weather_data_def select_rows_def run_ttest_def
      undefined_ttest_def print_ttest_results_def Let_def)

text \<open>
  Claim C10. However \<^verbatim>\<open>hypothesis_results\<close> ends, no test and no verdict line is about a
  station that the weather table's \<^verbatim>\<open>Weather_station_ID\<close> column does not hold, whatever
  the field table holds; without that column nothing is tested or printed at all.
\<close>

theorem stations_come_from_weather_table:
  assumes "hypothesis_results nan_rank ttest_ind field_df weather_df' list_measurements alpha = (err, evs)"
  shows "(\<forall>ids s. getitem weather_df' ''Weather_station_ID'' = Inr ids \<and> s \<notin> set ids
            \<longrightarrow> (\<forall>ev \<in> set evs. station_of ev \<noteq> Some s))
       \<and> ((\<exists>e. getitem weather_df' ''Weather_station_ID'' = Inl e) \<longrightarrow> evs = [])"
proof (intro conjI allI impI ballI)
  fix ids s ev
  assume a: "getitem weather_df' ''Weather_station_ID'' = Inr ids \<and> s \<notin> set ids"
    and ev: "ev \<in> set evs"
  show "station_of ev \<noteq> Some s"
  proof
    assume so: "station_of ev = Some s"
    from ev have "evs \<noteq> []" by auto
    with assms a obtain stations where st: "py_sorted nan_rank (unique ids) = Inr stations"
      and run: "station_loop ttest_ind field_df weather_df' alpha stations = (err, evs)"
      by (auto simp: hypothesis_results_def split: sum.splits)
    from station_loop_stations[OF run ev so] py_sorted_set[OF st] unique_set[of ids]
    have "s \<in> set ids" by simp
    with a show False by simp
  qed
next
  assume "\<exists>e. getitem weather_df' ''Weather_station_ID'' = Inl e"
  with assms show "evs = []"
    by (auto simp: hypothesis_results_def)
qed

theorem stations_come_from_weather_table_witness:
  "getitem sample_fused ''Weather_station'' = Inr [Num 0, Num 1, Num 7]
   \<and> getitem sample_parsed ''Weather_station_ID'' = Inr [Num 1, Num 0, Num 0]
   \<and> Ttest (Num 7) ''Temperature''
       \<notin> set (snd (hypothesis_results recorded_rank undefined_ttest sample_fused sample_parsed
            measurements_to_compare (Finite 0.05)))"
proof -
  have ids: "getitem sample_parsed ''Weather_station_ID'' = Inr [Num 1, Num 0, Num 0]"
    by (simp add: getitem_def sample_parsed_def)
  have fld: "getitem sample_fused ''Weather_station'' = Inr [Num 0, Num 1, Num 7]"
    by (simp add: getitem_def sample_fused_def)
  have run: "hypothesis_results recorded_rank undefined_ttest sample_fused sample_parsed
      measurements_to_compare (Finite 0.05)
    = (fst (hypothesis_results recorded_rank undefined_ttest sample_fused sample_parsed
        measurements_to_compare (Finite 0.05)),
       snd (hypothesis_results recorded_rank undefined_ttest sample_fused sample_parsed
        measurements_to_compare (Finite 0.05)))"
    by simp
  have "Num 7 \<notin> set [Num 1, Num 0, Num 0]" by simp
  with stations_come_from_weather_table[OF run, THEN conjunct1] ids
  have "\<forall>ev \<in> set (snd (hypothesis_results recorded_rank undefined_ttest sample_fused sample_parsed
        measurements_to_compare (Finite 0.05))). station_of ev \<noteq> Some (Num 7)"
    by blast
  then have "Ttest (Num 7) ''Temperature''
       \<notin> set (snd (hypothesis_results recorded_rank undefined_ttest sample_fused sample_parsed
            measurements_to_compare (Finite 0.05)))"
    by force
  with ids fld show ?thesis by simp
qed

end
